theory Spec2Isabelle
  imports Complex_Main "HOL-Library.Word"
begin

text \<open>
  A model of the colour mapping of BrainBrowser and of the compositing of its overlay
  volume: the colour map factory \<open>createColorMap\<close> with its parse loop, the methods
  \<open>mapColors\<close> and \<open>colorFromValue\<close> and the index resolution \<open>getColorMapIndex\<close>
  behind them, and \<open>getSliceImage\<close> and \<open>blendImages\<close> of the overlay volume. The
  definitions follow the JavaScript source statement by statement; the properties are
  proved after all the definitions.
\<close>

section \<open>JavaScript numbers\<close>

text \<open>
  The colour-mapping code of BrainBrowser computes on JavaScript numbers. They are modelled
  as exact reals together with the three non-finite values that the code can produce from
  finite inputs (a division by a zero range, a product with an undefined table entry).
  The rounding of binary64 arithmetic and the sign of zero are not modelled. Scalar
  parameters that the callers supply (window, scale, contrast, brightness, opacity of the
  options object) are taken to be finite and have type \<open>real\<close>.
\<close>

datatype jsnum = Num real | PosInf | NegInf | NaN

fun js_neg :: "jsnum \<Rightarrow> jsnum" where
  "js_neg (Num a) = Num (- a)"
| "js_neg PosInf = NegInf"
| "js_neg NegInf = PosInf"
| "js_neg NaN = NaN"

fun js_add :: "jsnum \<Rightarrow> jsnum \<Rightarrow> jsnum" where
  "js_add (Num a) (Num b) = Num (a + b)"
| "js_add NaN _ = NaN"
| "js_add _ NaN = NaN"
| "js_add PosInf NegInf = NaN"
| "js_add NegInf PosInf = NaN"
| "js_add PosInf _ = PosInf"
| "js_add _ PosInf = PosInf"
| "js_add NegInf _ = NegInf"
| "js_add _ NegInf = NegInf"

definition js_sub :: "jsnum \<Rightarrow> jsnum \<Rightarrow> jsnum" where
  "js_sub a b = js_add a (js_neg b)"

text \<open>The sign of an infinite product follows the signs of the factors; \<open>0 * Infinity\<close> is NaN.\<close>

fun js_scale_inf :: "real \<Rightarrow> jsnum \<Rightarrow> jsnum" where
  "js_scale_inf a x = (if 0 < a then x else if a < 0 then js_neg x else NaN)"

fun js_mul :: "jsnum \<Rightarrow> jsnum \<Rightarrow> jsnum" where
  "js_mul (Num a) (Num b) = Num (a * b)"
| "js_mul NaN _ = NaN"
| "js_mul _ NaN = NaN"
| "js_mul (Num a) PosInf = js_scale_inf a PosInf"
| "js_mul (Num a) NegInf = js_scale_inf a NegInf"
| "js_mul PosInf (Num b) = js_scale_inf b PosInf"
| "js_mul NegInf (Num b) = js_scale_inf b NegInf"
| "js_mul PosInf PosInf = PosInf"
| "js_mul PosInf NegInf = NegInf"
| "js_mul NegInf PosInf = NegInf"
| "js_mul NegInf NegInf = PosInf"

text \<open>\<open>a / b\<close> on finite operands; a zero divisor gives an infinity or NaN.\<close>

definition js_div :: "real \<Rightarrow> real \<Rightarrow> jsnum" where
  "js_div a b =
     (if b \<noteq> 0 then Num (a / b)
      else if 0 < a then PosInf else if a < 0 then NegInf else NaN)"

text \<open>Comparisons: every comparison with NaN is false.\<close>

fun js_lt :: "jsnum \<Rightarrow> jsnum \<Rightarrow> bool" where
  "js_lt NaN _ = False"
| "js_lt _ NaN = False"
| "js_lt (Num a) (Num b) = (a < b)"
| "js_lt PosInf _ = False"
| "js_lt _ PosInf = True"
| "js_lt _ NegInf = False"
| "js_lt NegInf _ = True"

definition js_gt :: "jsnum \<Rightarrow> jsnum \<Rightarrow> bool" where
  "js_gt a b = js_lt b a"

definition js_le :: "jsnum \<Rightarrow> jsnum \<Rightarrow> bool" where
  "js_le a b = (a \<noteq> NaN \<and> b \<noteq> NaN \<and> \<not> js_lt b a)"

text \<open>\<open>Math.min\<close>, \<open>Math.max\<close> and \<open>Math.floor\<close>.\<close>

definition Math_min :: "jsnum \<Rightarrow> jsnum \<Rightarrow> jsnum" where
  "Math_min a b = (if a = NaN \<or> b = NaN then NaN else if js_lt b a then b else a)"

definition Math_max :: "jsnum \<Rightarrow> jsnum \<Rightarrow> jsnum" where
  "Math_max a b = (if a = NaN \<or> b = NaN then NaN else if js_lt a b then b else a)"

fun Math_floor :: "jsnum \<Rightarrow> jsnum" where
  "Math_floor (Num a) = Num (of_int \<lfloor>a\<rfloor>)"
| "Math_floor x = x"

section \<open>Index resolution\<close>

text \<open>
  \<open>getColorMapIndex\<close> of the colour map module: the offset of the table entry of a
  value inside the flat RGBA array, or \<open>-1\<close> for a value outside the window when
  clamping is off. \<open>color_map_length\<close> is the number of array cells divided by four.
\<close>

definition getColorMapIndex ::
  "jsnum \<Rightarrow> real \<Rightarrow> real \<Rightarrow> jsnum \<Rightarrow> bool \<Rightarrow> bool \<Rightarrow> real \<Rightarrow> jsnum" where
  "getColorMapIndex v mn mx increment clamp flip color_map_length =
     (if (js_lt v (Num mn) \<or> js_gt v (Num mx)) \<and> \<not> clamp then Num (- 1)
      else
        let color_map_index =
              Math_floor (Math_max (Num 0)
                (Math_min (js_mul (js_sub v (Num mn)) increment) (Num (color_map_length - 1))));
            color_map_index =
              (if flip then js_sub (Num (color_map_length - 1)) color_map_index
               else color_map_index)
        in js_mul color_map_index (Num 4))"

text \<open>
  The increment that \<open>mapColors\<close> hands to \<open>getColorMapIndex\<close>: the table length
  divided by the range, replaced by 1 for the windows \<open>[0, 17]\<close> and \<open>[0, 18]\<close>.
\<close>

definition mapColors_increment :: "real \<Rightarrow> real \<Rightarrow> real \<Rightarrow> jsnum" where
  "mapColors_increment mn mx color_map_length =
     (if mn = 0 \<and> (mx = 17 \<or> mx = 18) then Num 1
      else js_div color_map_length (mx - mn))"

section \<open>Arrays and the store\<close>

text \<open>
  An array cell holds a number or is undefined (\<open>None\<close>: a hole of a sparse array, or the
  result of reading outside the array). A plain \<open>Array\<close> grows when a cell beyond its end
  is written and keeps the written number as it is; a typed array has a fixed length,
  ignores writes outside it and converts the written number to its element type.
  Four kinds of array are distinguished: the plain array, the float arrays (taken to
  store a number exactly, as the rounding of floats is not modelled), the array of
  unsigned bytes, which stands for the integer typed arrays, and the array of clamped
  bytes, which holds the pixels of an image.
\<close>

type_synonym cell = "jsnum option"

definition ToNumber :: "cell \<Rightarrow> jsnum" where
  "ToNumber c = (case c of None \<Rightarrow> NaN | Some x \<Rightarrow> x)"

datatype array_kind = Plain | Float | Uint8 | Uint8Clamped

record js_array =
  kind :: array_kind
  elems :: "cell list"

text \<open>Rounding to the nearest integer, ties to even, as the clamped byte conversion does.\<close>

definition round_half_even :: "real \<Rightarrow> int" where
  "round_half_even r =
     (let f = \<lfloor>r\<rfloor> in
      if r - of_int f < 1 / 2 then f
      else if 1 / 2 < r - of_int f then f + 1
      else if even f then f else f + 1)"

fun ToUint8Clamp :: "jsnum \<Rightarrow> 8 word" where
  "ToUint8Clamp (Num r) =
     (if r \<le> 0 then 0 else if 255 \<le> r then 255 else word_of_int (round_half_even r))"
| "ToUint8Clamp PosInf = 255"
| "ToUint8Clamp NegInf = 0"
| "ToUint8Clamp NaN = 0"

fun ToUint8 :: "jsnum \<Rightarrow> 8 word" where
  "ToUint8 (Num r) = word_of_int (if 0 \<le> r then \<lfloor>r\<rfloor> else \<lceil>r\<rceil>)"
| "ToUint8 x = 0"

definition byte_num :: "8 word \<Rightarrow> jsnum" where
  "byte_num b = Num (real (unat b))"

fun store_conv :: "array_kind \<Rightarrow> jsnum \<Rightarrow> jsnum" where
  "store_conv Plain x = x"
| "store_conv Float x = x"
| "store_conv Uint8 x = byte_num (ToUint8 x)"
| "store_conv Uint8Clamped x = byte_num (ToUint8Clamp x)"

definition arr_read :: "js_array \<Rightarrow> nat \<Rightarrow> cell" where
  "arr_read a i = (if i < length (elems a) then elems a ! i else None)"

text \<open>A read at a computed index: only a non-negative integer names a cell.\<close>

fun arr_read_num :: "js_array \<Rightarrow> jsnum \<Rightarrow> cell" where
  "arr_read_num a (Num r) =
     (if 0 \<le> r \<and> r = of_int \<lfloor>r\<rfloor> then arr_read a (nat \<lfloor>r\<rfloor>) else None)"
| "arr_read_num a x = None"

definition plain_write :: "cell list \<Rightarrow> nat \<Rightarrow> jsnum \<Rightarrow> cell list" where
  "plain_write xs i x = (xs @ replicate (Suc i - length xs) None)[i := Some x]"

definition arr_write :: "js_array \<Rightarrow> nat \<Rightarrow> jsnum \<Rightarrow> js_array" where
  "arr_write a i x =
     (case kind a of
        Plain \<Rightarrow> a\<lparr>elems := plain_write (elems a) i x\<rparr>
      | k \<Rightarrow> if i < length (elems a) then a\<lparr>elems := (elems a)[i := Some (store_conv k x)]\<rparr> else a)"

text \<open>
  \<open>map\<close> of an array: the result is a new array of the same kind; a plain array keeps
  its holes, a typed array converts every result to its element type.
\<close>

definition array_map :: "(cell \<Rightarrow> cell) \<Rightarrow> js_array \<Rightarrow> js_array" where
  "array_map f a =
     (case kind a of
        Plain \<Rightarrow> a\<lparr>elems := map (\<lambda>c. case c of None \<Rightarrow> None | Some x \<Rightarrow> f (Some x)) (elems a)\<rparr>
      | k \<Rightarrow> a\<lparr>elems := map (\<lambda>c. Some (store_conv k (ToNumber (f c)))) (elems a)\<rparr>)"

text \<open>
  The store holds the arrays that the caller and the colour map share by reference.
  The world of one colour map object is the store together with the fields of the object.
\<close>

type_synonym addr = nat

record color_map =
  cm_colors :: "addr option"
  cm_clamp :: bool
  cm_flip :: bool
  cm_scale :: real
  cm_contrast :: real
  cm_brightness :: real

record store =
  arrays :: "addr \<Rightarrow> js_array"
  next_free :: addr

record world = store +
  this_map :: color_map

definition empty_store :: store where
  "empty_store = \<lparr>arrays = (\<lambda>a. \<lparr>kind = Plain, elems = []\<rparr>), next_free = 0\<rparr>"

definition alloc :: "js_array \<Rightarrow> 'a store_scheme \<Rightarrow> addr \<times> 'a store_scheme" where
  "alloc a w = (next_free w, w\<lparr>arrays := (arrays w)(next_free w := a), next_free := Suc (next_free w)\<rparr>)"

definition store_write :: "addr \<Rightarrow> nat \<Rightarrow> jsnum \<Rightarrow> 'a store_scheme \<Rightarrow> 'a store_scheme" where
  "store_write d i x w = w\<lparr>arrays := (arrays w)(d := arr_write (arrays w d) i x)\<rparr>"

section \<open>Parsing a colour map\<close>

text \<open>
  The text of a colour map is a string of bytes. White space is the ASCII white space
  (space, tab, line feed, vertical tab, form feed, carriage return).
\<close>

definition is_ws :: "char \<Rightarrow> bool" where
  "is_ws c = ((of_char c :: nat) = 32 \<or> (9 \<le> (of_char c :: nat) \<and> (of_char c :: nat) \<le> 13))"

definition is_digit :: "char \<Rightarrow> bool" where
  "is_digit c = (48 \<le> (of_char c :: nat) \<and> (of_char c :: nat) \<le> 57)"

definition trim :: "string \<Rightarrow> string" where
  "trim s = rev (dropWhile is_ws (rev (dropWhile is_ws s)))"

text \<open>\<open>split(/\n/)\<close>: the pieces between line feeds; an empty string gives one empty piece.\<close>

fun split_lines :: "string \<Rightarrow> string \<Rightarrow> string list" where
  "split_lines cur [] = [rev cur]"
| "split_lines cur (c # cs) =
     (if (of_char c :: nat) = 10 then rev cur # split_lines [] cs else split_lines (c # cur) cs)"

text \<open>\<open>split(/\s+/)\<close>: the pieces between maximal runs of white space.\<close>

fun split_ws :: "bool \<Rightarrow> string \<Rightarrow> string \<Rightarrow> string list" where
  "split_ws in_sep cur [] = [rev cur]"
| "split_ws in_sep cur (c # cs) =
     (if is_ws c then (if in_sep then split_ws True cur cs else rev cur # split_ws True [] cs)
      else split_ws False (c # cur) cs)"

definition digits_val :: "string \<Rightarrow> nat" where
  "digits_val ds = foldl (\<lambda>a c. 10 * a + ((of_char c :: nat) - 48)) 0 ds"

text \<open>An optional sign in front of a numeral: whether it is a minus, and the rest.\<close>

fun take_sign :: "string \<Rightarrow> bool \<times> string" where
  "take_sign [] = (False, [])"
| "take_sign (c # cs) =
     (if (of_char c :: nat) = 45 then (True, cs)
      else if (of_char c :: nat) = 43 then (False, cs) else (False, c # cs))"

text \<open>\<open>parseInt(s, 10)\<close>; \<open>None\<close> is NaN.\<close>

definition parseInt10 :: "string \<Rightarrow> int option" where
  "parseInt10 s =
     (let (neg, r) = take_sign (dropWhile is_ws s);
          ds = takeWhile is_digit r
      in if ds = [] then None
         else Some (if neg then - int (digits_val ds) else int (digits_val ds)))"

text \<open>The exponent part of a decimal literal, if there is a complete one.\<close>

definition exponent_part :: "string \<Rightarrow> int" where
  "exponent_part r =
     (case r of
        [] \<Rightarrow> 0
      | c # cs \<Rightarrow>
          if (of_char c :: nat) = 101 \<or> (of_char c :: nat) = 69 then
            (let (neg, r') = take_sign cs; ds = takeWhile is_digit r'
             in if ds = [] then 0
                else if neg then - int (digits_val ds) else int (digits_val ds))
          else 0)"

definition pow10 :: "int \<Rightarrow> real" where
  "pow10 e = (if 0 \<le> e then 10 ^ nat e else 1 / 10 ^ nat (- e))"

text \<open>\<open>parseFloat\<close>: the longest prefix that is a decimal literal, after leading white space.\<close>

definition parseFloat :: "string \<Rightarrow> jsnum" where
  "parseFloat s =
     (let (neg, r) = take_sign (dropWhile is_ws s)
      in if take 8 r = ''Infinity'' then (if neg then NegInf else PosInf)
         else
           let ip = takeWhile is_digit r;
               r1 = dropWhile is_digit r;
               has_dot = (case r1 of [] \<Rightarrow> False | c # cs \<Rightarrow> (of_char c :: nat) = 46);
               fp = (if has_dot then takeWhile is_digit (tl r1) else []);
               r2 = (if has_dot then dropWhile is_digit (tl r1) else r1);
               m = (real (digits_val ip) + real (digits_val fp) / 10 ^ length fp)
                     * pow10 (exponent_part r2)
           in if ip = [] \<and> fp = [] then NaN else Num (if neg then - m else m))"

text \<open>
  The parse loop of \<open>createColorMap\<close>. Its state is the array being filled and the
  offset \<open>ic\<close> of the next entry, which is NaN (\<open>None\<close>) once a label did not parse.
  A write at a NaN or negative offset sets a property that is no array cell; the model
  drops it (and reads at such an index give undefined).
\<close>

definition put_color :: "cell list \<Rightarrow> int option \<Rightarrow> nat \<Rightarrow> jsnum \<Rightarrow> cell list" where
  "put_color cmc ic j x =
     (case ic of
        None \<Rightarrow> cmc
      | Some n \<Rightarrow> if n + int j < 0 then cmc else plain_write cmc (nat (n + int j)) x)"

definition parse_line :: "string \<Rightarrow> cell list \<times> int option \<Rightarrow> cell list \<times> int option" where
  "parse_line line st =
     (let (color_map_colors, ic) = st;
          color = take 5 (split_ws False [] (trim line));
          line_length = length color
      in if line_length < 3 then st
         else
           let sparse = (4 < line_length);
               ic = (if sparse then map_option (\<lambda>n. n * 4) (parseInt10 (color ! 0)) else ic);
               color = (if sparse then take 4 (drop 1 color) else color);
               line_length = (if sparse then 4 else line_length);
               color_map_colors =
                 fold (\<lambda>j cmc. put_color cmc ic j (parseFloat (color ! j))) [0..<line_length]
                   color_map_colors;
               color_map_colors =
                 (if line_length < 4 then put_color color_map_colors ic 3 (Num 1)
                  else color_map_colors)
           in (color_map_colors, map_option (\<lambda>n. n + 4) ic))"

definition parse_colors :: "string \<Rightarrow> cell list" where
  "parse_colors data = fst (fold parse_line (split_lines [] (trim data)) ([], Some 0))"

record cm_options =
  co_clamp :: "bool option"
  co_flip :: "bool option"
  co_scale :: "real option"
  co_contrast :: "real option"
  co_brightness :: "real option"

definition or_default :: "real option \<Rightarrow> real \<Rightarrow> real" where
  "or_default x d = (case x of None \<Rightarrow> d | Some v \<Rightarrow> if v = 0 then d else v)"

text \<open>
  \<open>createColorMap\<close>: the colours are parsed when the data is a non-empty string,
  and stay undefined otherwise. The new array is allocated in the store. The margin
  option only serves the drawing of the legend, which is not modelled.
\<close>

definition createColorMap :: "store \<Rightarrow> string option \<Rightarrow> cm_options option \<Rightarrow> world" where
  "createColorMap s data options =
     (let clamp = (case options of None \<Rightarrow> True
                   | Some opts \<Rightarrow> (case co_clamp opts of None \<Rightarrow> True | Some b \<Rightarrow> b));
          flip = (case options of None \<Rightarrow> False
                  | Some opts \<Rightarrow> (case co_flip opts of None \<Rightarrow> False | Some b \<Rightarrow> b));
          scale = or_default (case options of None \<Rightarrow> None | Some opts \<Rightarrow> co_scale opts) 1;
          contrast = or_default (case options of None \<Rightarrow> None | Some opts \<Rightarrow> co_contrast opts) 1;
          brightness = or_default (case options of None \<Rightarrow> None | Some opts \<Rightarrow> co_brightness opts) 0;
          (color_map_colors, s) =
            (case data of
               None \<Rightarrow> (None, s)
             | Some d \<Rightarrow>
                 if d = [] then (None, s)
                 else (let (a, s') = alloc \<lparr>kind = Plain, elems = parse_colors d\<rparr> s
                       in (Some a, s')))
      in \<lparr>arrays = arrays s, next_free = next_free s,
          this_map = \<lparr>cm_colors = color_map_colors, cm_clamp = clamp, cm_flip = flip,
                       cm_scale = scale, cm_contrast = contrast, cm_brightness = brightness\<rparr>\<rparr>)"

section \<open>Mapping intensities to colours\<close>

text \<open>
  The options object of \<open>mapColors\<close>. A field that is absent is \<open>None\<close>. The destination is
  an array of the store; the default colours and the colour options are read only and are
  given by their contents (they are taken not to be the destination array).
\<close>

record color_options =
  colors :: "(jsnum \<times> string) list"
  defaultColor :: "cell list"
  leftCount :: jsnum

record map_options =
  opt_min :: "real option"
  opt_max :: "real option"
  opt_maxSpectrum :: "real option"
  opt_default_colors :: "cell list option"
  opt_destination :: "addr option"
  opt_scale :: "real option"
  opt_clamp :: "bool option"
  opt_flip :: "bool option"
  opt_brightness :: "real option"
  opt_contrast :: "real option"
  opt_colorOptions :: "color_options option"

definition no_options :: map_options where
  "no_options =
     \<lparr>opt_min = None, opt_max = None, opt_maxSpectrum = None, opt_default_colors = None,
      opt_destination = None, opt_scale = None, opt_clamp = None, opt_flip = None,
      opt_brightness = None, opt_contrast = None, opt_colorOptions = None\<rparr>"

text \<open>
  The filter callback is a function of the contents of the colours array (or of undefined).
  It returns the array it was given, a new array, or a falsy value; it writes nothing.
\<close>

datatype cb_result = ReturnsArgument | ReturnsFresh js_array | ReturnsFalsy

type_synonym filter_cb = "js_array option \<Rightarrow> cb_result"

datatype table_ref = InStore addr | Local js_array

definition active_colors :: "world \<Rightarrow> filter_cb option \<Rightarrow> table_ref option" where
  "active_colors w filterColorCb =
     (case filterColorCb of
        None \<Rightarrow> map_option InStore (cm_colors (this_map w))
      | Some f \<Rightarrow>
          (case f (map_option (arrays w) (cm_colors (this_map w))) of
             ReturnsArgument \<Rightarrow> map_option InStore (cm_colors (this_map w))
           | ReturnsFresh a \<Rightarrow> Some (Local a)
           | ReturnsFalsy \<Rightarrow> None))"

fun table_array :: "'a store_scheme \<Rightarrow> table_ref \<Rightarrow> js_array" where
  "table_array w (InStore a) = arrays w a"
| "table_array w (Local t) = t"

text \<open>The arrow function of the preprocessing pass over the intensities.\<close>

definition clamp_spectrum :: "real \<Rightarrow> real \<Rightarrow> cell \<Rightarrow> cell" where
  "clamp_spectrum mx maxSpectrum v =
     (if js_gt (ToNumber v) (Num mx) \<and> js_le (ToNumber v) (Num maxSpectrum)
      then Some (Num (mx - 1 / 10000)) else v)"

text \<open>Strict equality of two numbers.\<close>

definition js_eq :: "jsnum \<Rightarrow> jsnum \<Rightarrow> bool" where
  "js_eq a b = (a = b \<and> a \<noteq> NaN)"

text \<open>The predicate of the search in the sided colour options, at position \<open>i\<close>.\<close>

definition color_matches :: "jsnum \<Rightarrow> nat \<Rightarrow> jsnum \<Rightarrow> jsnum \<times> string \<Rightarrow> bool" where
  "color_matches v i left_count color =
     (let isLeft = (snd color = ''left'');
          isAll = (snd color = ''all'');
          side = (isAll \<or> (if isLeft then js_le (Num (real i)) left_count
                            else js_gt (Num (real i)) left_count))
      in if js_eq (fst color) (Num 1) then (js_gt v (Num 0) \<and> js_le v (Num 1)) \<and> side
         else js_eq (fst color) v \<and> side)"

text \<open>
  Everything the loop of \<open>mapColors\<close> reads besides the store: the copy of the
  intensities and the effective parameters.
\<close>

record map_env =
  e_values :: js_array
  e_min :: real
  e_max :: real
  e_increment :: jsnum
  e_clamp :: bool
  e_flip :: bool
  e_length :: real
  e_table :: table_ref
  e_default_colors :: "cell list"
  e_default_color_offset :: nat
  e_contrast :: real
  e_brightness :: real
  e_scale :: real
  e_colorOptions :: "color_options option"
  e_destination :: addr

definition shade :: "real \<Rightarrow> real \<Rightarrow> cell \<Rightarrow> jsnum" where
  "shade contrast brightness c = js_add (js_mul (Num contrast) (ToNumber c)) (Num brightness)"

definition list_read :: "cell list \<Rightarrow> nat \<Rightarrow> cell" where
  "list_read xs i = (if i < length xs then xs ! i else None)"

text \<open>The four assignments of one pixel, in the order of the source, from a fixed colour.\<close>

definition write_fixed :: "map_env \<Rightarrow> nat \<Rightarrow> cell list \<Rightarrow> nat \<Rightarrow> world \<Rightarrow> world" where
  "write_fixed e ic c off w =
     (let d = e_destination e;
          w = store_write d ic (shade (e_contrast e) (e_brightness e) (list_read c off)) w;
          w = store_write d (ic + 1) (shade (e_contrast e) (e_brightness e) (list_read c (off + 1))) w;
          w = store_write d (ic + 2) (shade (e_contrast e) (e_brightness e) (list_read c (off + 2))) w
      in store_write d (ic + 3) (js_mul (Num (e_scale e)) (ToNumber (list_read c (off + 3)))) w)"

text \<open>
  The four assignments of one pixel from the colour table. Each assignment reads the
  table as it is at that moment, which matters when the table is the destination itself.
\<close>

definition write_table :: "map_env \<Rightarrow> nat \<Rightarrow> jsnum \<Rightarrow> world \<Rightarrow> world" where
  "write_table e ic color_map_index w =
     (let d = e_destination e;
          t = e_table e;
          w = store_write d ic
                (shade (e_contrast e) (e_brightness e)
                   (arr_read_num (table_array w t) color_map_index)) w;
          w = store_write d (ic + 1)
                (shade (e_contrast e) (e_brightness e)
                   (arr_read_num (table_array w t) (js_add color_map_index (Num 1)))) w;
          w = store_write d (ic + 2)
                (shade (e_contrast e) (e_brightness e)
                   (arr_read_num (table_array w t) (js_add color_map_index (Num 2)))) w
      in store_write d (ic + 3)
           (js_mul (Num (e_scale e))
              (ToNumber (arr_read_num (table_array w t) (js_add color_map_index (Num 3))))) w)"

text \<open>The body of the loop over the intensities, for position \<open>i\<close>.\<close>

definition mapColors_pixel :: "map_env \<Rightarrow> nat \<Rightarrow> world \<Rightarrow> world" where
  "mapColors_pixel e i w =
     (let v = ToNumber (arr_read (e_values e) i);
          ic = i * 4;
          color_map_index =
            getColorMapIndex v (e_min e) (e_max e) (e_increment e) (e_clamp e) (e_flip e)
              (e_length e)
      in if js_lt color_map_index (Num 0) then
           write_fixed e ic (e_default_colors e) (ic * e_default_color_offset e) w
         else
           (case e_colorOptions e of
              Some co \<Rightarrow>
                if list_ex (color_matches v i (leftCount co)) (colors co)
                then write_table e ic color_map_index w
                else write_fixed e ic (defaultColor co) 0 w
            | None \<Rightarrow> write_table e ic color_map_index w))"

text \<open>
  The first statements of \<open>mapColors\<close>: the copy of the intensities in which a value
  above the maximum and not above \<open>maxSpectrum\<close> is replaced. The loop indexes this copy.
\<close>

definition intensity_copy :: "map_options \<Rightarrow> js_array \<Rightarrow> js_array" where
  "intensity_copy options intensity_values =
     (let mx = (case opt_max options of None \<Rightarrow> 255 | Some m \<Rightarrow> m);
          maxSpectrum = or_default (opt_maxSpectrum options) 4
      in array_map (clamp_spectrum mx maxSpectrum) intensity_values)"

text \<open>
  The destination: the array the caller supplies, or else a new float array of four
  cells for each of the \<open>n\<close> intensities.
\<close>

definition destination_of :: "map_options \<Rightarrow> nat \<Rightarrow> world \<Rightarrow> addr \<times> world" where
  "destination_of options n w =
     (case opt_destination options of
        Some d \<Rightarrow> (d, w)
      | None \<Rightarrow> alloc \<lparr>kind = Float, elems = replicate (n * 4) (Some (Num 0))\<rparr> w)"

text \<open>
  The effective parameters of the loop: an option of the call overrides the field of the
  colour map; contrast and brightness are multiplied by the scale.
\<close>

definition mapColors_env ::
  "world \<Rightarrow> map_options \<Rightarrow> js_array \<Rightarrow> table_ref \<Rightarrow> addr \<Rightarrow> map_env" where
  "mapColors_env w options vals color_map_colors destination =
     (let mn = (case opt_min options of None \<Rightarrow> 0 | Some m \<Rightarrow> m);
          mx = (case opt_max options of None \<Rightarrow> 255 | Some m \<Rightarrow> m);
          default_colors =
            (case opt_default_colors options of
               None \<Rightarrow> [Some (Num 0), Some (Num 0), Some (Num 0), Some (Num 1)]
             | Some d \<Rightarrow> d);
          color_map_length = real (length (elems (table_array w color_map_colors))) / 4;
          scale = (case opt_scale options of None \<Rightarrow> cm_scale (this_map w) | Some x \<Rightarrow> x);
          clamp = (case opt_clamp options of None \<Rightarrow> cm_clamp (this_map w) | Some x \<Rightarrow> x);
          flip = (case opt_flip options of None \<Rightarrow> cm_flip (this_map w) | Some x \<Rightarrow> x);
          brightness =
            (case opt_brightness options of None \<Rightarrow> cm_brightness (this_map w) | Some x \<Rightarrow> x);
          contrast =
            (case opt_contrast options of None \<Rightarrow> cm_contrast (this_map w) | Some x \<Rightarrow> x)
      in \<lparr>e_values = vals, e_min = mn, e_max = mx,
          e_increment = mapColors_increment mn mx color_map_length,
          e_clamp = clamp, e_flip = flip, e_length = color_map_length,
          e_table = color_map_colors, e_default_colors = default_colors,
          e_default_color_offset = (if length default_colors = 4 then 0 else 1),
          e_contrast = contrast * scale, e_brightness = brightness * scale,
          e_scale = scale, e_colorOptions = opt_colorOptions options,
          e_destination = destination\<rparr>)"

text \<open>
  \<open>mapColors\<close>. The result is the address of the destination, or \<open>None\<close> for undefined
  when the colours (after the filter callback, if there is one) are falsy.
\<close>

definition mapColors ::
  "world \<Rightarrow> addr \<Rightarrow> map_options option \<Rightarrow> filter_cb option \<Rightarrow> addr option \<times> world" where
  "mapColors w intensity_values options filterColorCb =
     (let options = (case options of None \<Rightarrow> no_options | Some opts \<Rightarrow> opts);
          vals = intensity_copy options (arrays w intensity_values);
          (destination, w) = destination_of options (length (elems vals)) w
      in case active_colors w filterColorCb of
           None \<Rightarrow> (None, w)
         | Some color_map_colors \<Rightarrow>
             (Some destination,
              fold (mapColors_pixel (mapColors_env w options vals color_map_colors destination))
                [0..<length (elems vals)] w))"

section \<open>The colour of one value\<close>

datatype js_error = TypeError | RangeError | IndexSizeError | MissingColorMap

datatype color_value = Hex string | Color "cell list"

record value_options =
  vo_hex :: bool
  vo_min :: "real option"
  vo_max :: "real option"
  vo_scale :: "real option"
  vo_brightness :: "real option"
  vo_contrast :: "real option"

definition hex_digit :: "nat \<Rightarrow> char" where
  "hex_digit n = (if n < 10 then char_of (48 + n) else char_of (87 + n))"

fun hex_digits :: "nat \<Rightarrow> string" where
  "hex_digits n = (if n < 16 then [hex_digit n] else hex_digits (n div 16) @ [hex_digit (n mod 16)])"

definition last2 :: "string \<Rightarrow> string" where
  "last2 s = drop (length s - 2) s"

text \<open>\<open>("0" + Math.floor(c * 255).toString(16)).slice(-2)\<close> for a channel \<open>c\<close>.\<close>

definition hex_channel :: "jsnum \<Rightarrow> string" where
  "hex_channel c =
     (case Math_floor (js_mul c (Num 255)) of
        Num r \<Rightarrow>
          last2 (''0'' @ (if r < 0 then ''-'' @ hex_digits (nat (- \<lfloor>r\<rfloor>)) else hex_digits (nat \<lfloor>r\<rfloor>)))
      | PosInf \<Rightarrow> last2 ''0Infinity''
      | NegInf \<Rightarrow> last2 ''0-Infinity''
      | NaN \<Rightarrow> last2 ''0NaN'')"

definition unit_clamp :: "jsnum \<Rightarrow> jsnum" where
  "unit_clamp x = Math_max (Num 0) (Math_min x (Num 1))"

text \<open>
  \<open>colorFromValue\<close>. Reading the length of undefined colours raises a type error.
  The slice of the table takes the cells from the index up to four cells later, as far
  as the array goes; the assignments to the channels extend the slice where it is short.
\<close>

definition colorFromValue :: "world \<Rightarrow> jsnum \<Rightarrow> value_options option \<Rightarrow> js_error + color_value" where
  "colorFromValue w v options =
     (let hex = (case options of None \<Rightarrow> False | Some opts \<Rightarrow> vo_hex opts);
          mn = (case options of None \<Rightarrow> 0
                | Some opts \<Rightarrow> (case vo_min opts of None \<Rightarrow> 0 | Some m \<Rightarrow> m));
          mx = (case options of None \<Rightarrow> 255
                | Some opts \<Rightarrow> (case vo_max opts of None \<Rightarrow> 255 | Some m \<Rightarrow> m));
          scale = (case options of None \<Rightarrow> cm_scale (this_map w)
                   | Some opts \<Rightarrow> (case vo_scale opts of None \<Rightarrow> cm_scale (this_map w) | Some x \<Rightarrow> x));
          brightness = (case options of None \<Rightarrow> cm_brightness (this_map w)
                   | Some opts \<Rightarrow> (case vo_brightness opts of None \<Rightarrow> cm_brightness (this_map w) | Some x \<Rightarrow> x));
          contrast = (case options of None \<Rightarrow> cm_contrast (this_map w)
                   | Some opts \<Rightarrow> (case vo_contrast opts of None \<Rightarrow> cm_contrast (this_map w) | Some x \<Rightarrow> x));
          range = mx - mn
      in case cm_colors (this_map w) of
           None \<Rightarrow> Inl TypeError
         | Some a \<Rightarrow>
             let tbl = elems (arrays w a);
                 color_map_length = real (length tbl) / 4;
                 increment = js_div color_map_length range;
                 color_map_index =
                   getColorMapIndex v mn mx increment (cm_clamp (this_map w)) (cm_flip (this_map w))
                     color_map_length;
                 color =
                   (case color_map_index of
                      Num r \<Rightarrow>
                        if 0 \<le> r then take (nat \<lfloor>r + 4\<rfloor> - nat \<lfloor>r\<rfloor>) (drop (nat \<lfloor>r\<rfloor>) tbl)
                        else [Some (Num 0), Some (Num 0), Some (Num 0), Some (Num 1)]
                    | _ \<Rightarrow> [Some (Num 0), Some (Num 0), Some (Num 0), Some (Num 1)]);
                 c0 = unit_clamp (shade contrast brightness (list_read color 0));
                 c1 = unit_clamp (shade contrast brightness (list_read color 1));
                 c2 = unit_clamp (shade contrast brightness (list_read color 2))
             in if hex then Inr (Hex (hex_channel c0 @ hex_channel c1 @ hex_channel c2))
                else Inr (Color [Some (js_mul c0 (Num scale)), Some (js_mul c1 (Num scale)),
                                 Some (js_mul c2 (Num scale)),
                                 Some (js_mul (ToNumber (list_read color 3)) (Num scale))]))"

section \<open>Blending the images of an overlay\<close>

text \<open>
  An image is an \<open>ImageData\<close>: its size, its bytes (four per pixel, a clamped byte array)
  and the z-index that \<open>getSliceImage\<close> attaches to it.
\<close>

record image =
  width :: nat
  height :: nat
  data :: "8 word list"
  display_zindex :: "real option"

definition byte_read :: "8 word list \<Rightarrow> nat \<Rightarrow> cell" where
  "byte_read xs i = (if i < length xs then Some (byte_num (xs ! i)) else None)"


text \<open>A read of the float array of opacities; outside the array it is undefined, a NaN in arithmetic.\<close>

definition opacity_at :: "jsnum list \<Rightarrow> nat \<Rightarrow> jsnum" where
  "opacity_at ops i = (if i < length ops then ops ! i else NaN)"

text \<open>One channel assignment \<open>target_data[p] = target_data[p] * opacity + src * op\<close>.\<close>

definition blend_channel :: "8 word list \<Rightarrow> nat \<Rightarrow> jsnum \<Rightarrow> cell \<Rightarrow> jsnum \<Rightarrow> 8 word list" where
  "blend_channel target_data p opacity src op =
     target_data[p := ToUint8Clamp
        (js_add (js_mul (ToNumber (byte_read target_data p)) opacity) (js_mul (ToNumber src) op))]"

text \<open>
  What an image that covers the target pixel does to it: a source pixel that is not black
  is blended into the three colour channels, and the alpha channel is set in any case.
\<close>

definition blend_source ::
  "8 word list \<Rightarrow> nat \<Rightarrow> 8 word list \<Rightarrow> nat \<Rightarrow> jsnum \<Rightarrow> jsnum \<Rightarrow> 8 word list" where
  "blend_source image_data current target_data pixel opacity op =
     (let target_data =
            (if js_gt (ToNumber (byte_read image_data current)) (Num 0)
                \<or> js_gt (ToNumber (byte_read image_data (current + 1))) (Num 0)
                \<or> js_gt (ToNumber (byte_read image_data (current + 2))) (Num 0)
             then
               let t = blend_channel target_data pixel opacity (byte_read image_data current) op;
                   t = blend_channel t (pixel + 1) opacity (byte_read image_data (current + 1)) op
               in blend_channel t (pixel + 2) opacity (byte_read image_data (current + 2)) op
             else target_data)
      in target_data[pixel + 3 := 255])"





section \<open>The slice image of an overlay\<close>

















section \<open>Auxiliary notions and sample data\<close>

text \<open>
  For two images that cover the whole target, what the two passes of the inner loop
  do to the bytes of the target at pixel \<open>q\<close> (in raster order).
\<close>

definition blend_two :: "image \<Rightarrow> image \<Rightarrow> jsnum list \<Rightarrow> nat \<Rightarrow> 8 word list \<Rightarrow> 8 word list" where
  "blend_two I0 I1 ops q td =
     blend_source (data I1) (4 * q)
       (blend_source (data I0) (4 * q) td (4 * q) (Num 0) (opacity_at ops 0))
       (4 * q) (js_sub (Num 1) (opacity_at ops 1)) (opacity_at ops 1)"

text \<open>
  Sample worlds: a colour map of five dense lines, one of four labelled lines, one
  without data and one whose only line is too short, each with one intensity array
  at address 1 (the colours, where there are any, are at address 0).
\<close>

definition rgb_world :: world where
  "rgb_world = snd (alloc \<lparr>kind = Plain, elems = [Some (Num (5 / 2))]\<rparr>
     (createColorMap empty_store
        (Some ''0 0 0\<newline>1 0 0\<newline>0 1 0\<newline>0 0 1\<newline>1 1 1'') None))"

definition label_world :: world where
  "label_world = snd (alloc \<lparr>kind = Plain, elems = [Some (Num 2)]\<rparr>
     (createColorMap empty_store
        (Some ''0 0 0 0 1\<newline>1 1 0 0 1\<newline>2 0 1 0 1\<newline>3 0 0 1 1'') None))"

definition no_colors_world :: world where
  "no_colors_world = snd (alloc \<lparr>kind = Plain, elems = [Some (Num 1)]\<rparr>
     (createColorMap empty_store None None))"

definition empty_colors_world :: world where
  "empty_colors_world = snd (alloc \<lparr>kind = Plain, elems = [Some (Num 1)]\<rparr>
     (createColorMap empty_store (Some ''1 2'') None))"

definition window :: "real \<Rightarrow> real \<Rightarrow> map_options" where
  "window mn mx = no_options\<lparr>opt_min := Some mn, opt_max := Some mx\<rparr>"







section \<open>Properties of the store\<close>

lemma this_map_alloc: "this_map (snd (alloc arr w)) = this_map w"
  by (simp add: alloc_def)

lemma arrays_alloc_old: "a < next_free w \<Longrightarrow> arrays (snd (alloc arr w)) a = arrays w a"
  by (simp add: alloc_def)

lemma active_colors_alloc:
  assumes "\<forall>a. cm_colors (this_map w) = Some a \<longrightarrow> a < next_free w"
  shows "active_colors (snd (alloc arr w)) cb = active_colors w cb"
proof -
  have "map_option (arrays (snd (alloc arr w))) (cm_colors (this_map w))
      = map_option (arrays w) (cm_colors (this_map w))"
    using assms by (cases "cm_colors (this_map w)") (simp_all add: arrays_alloc_old)
  then show ?thesis
    by (simp add: active_colors_def this_map_alloc cong: option.case_cong cb_result.case_cong)
qed



lemma active_colors_destination:
  assumes "\<forall>a. cm_colors (this_map w) = Some a \<longrightarrow> a < next_free w"
  shows "active_colors (snd (destination_of options n w)) cb = active_colors w cb"
  using assms by (simp add: destination_of_def active_colors_alloc split: option.splits)

section \<open>Properties of the index resolution\<close>






lemma flip_boundary:
  fixes L :: nat and k :: int
  assumes "1 \<le> k" "k \<le> int L - 1"
  shows "real L - 1 - of_int \<lfloor>max 0 (min (of_int k) (real L - 1))\<rfloor> = of_int \<lfloor>max 0 (min (real L - of_int k) (real L - 1))\<rfloor> - 1"
proof -
  have a: "min (real_of_int k) (real L - 1) = of_int k" using assms by (simp add: min_def)
  have b: "min (real L - of_int k) (real L - 1) = real L - of_int k" using assms by (simp add: min_def)
  have c: "\<lfloor>real L - real_of_int k\<rfloor> = int L - k" by (simp add: floor_eq_iff)
  have d: "max 0 (real L - real_of_int k) = real L - real_of_int k" using assms by (simp add: max_def)
  show ?thesis using assms by (simp add: a b c d max_def)
qed









section \<open>Properties of the blending\<close>

lemma blend_channel_length [simp]: "length (blend_channel td p opacity src op) = length td"
  by (simp add: blend_channel_def)



lemma blend_source_length [simp]: "length (blend_source d cur td p opacity op) = length td"
  by (simp add: blend_source_def Let_def)



lemma real_unat_pos: "(0 < real (unat (b :: 8 word))) = (b \<noteq> 0)"
  by (simp only: of_nat_0_less_iff unat_gt_0)




lemma blend_two_length [simp]: "length (blend_two I0 I1 ops q td) = length td"
  by (simp add: blend_two_def)












lemma fold_blend_two_length [simp]: "length (fold (blend_two I0 I1 ops) xs td) = length td"
  by (induction xs arbitrary: td) simp_all











section \<open>Properties of the parser\<close>

lemma take5_short: "length (take 5 xs) < 3 \<longleftrightarrow> length xs < 3"
  by auto

text \<open>
  Claim C8. The text of the single line \<open>3 1 0 0 1\<close> parses to an array whose cells 0
  to 11 are holes and whose cells 12 to 15 are \<open>1, 0, 0, 1\<close>; the offset of the next
  entry is then 16, so a dense line that follows is written to the cells 16 to 19; and a
  line of fewer than three fields leaves the state of the parse loop as it is.
\<close>

theorem sparse_table:
  "parse_colors ''3 1 0 0 1'' =
     replicate 12 None @ [Some (Num 1), Some (Num 0), Some (Num 0), Some (Num 1)] \<and>
   parse_line ''3 1 0 0 1'' ([], Some 0) =
     (replicate 12 None @ [Some (Num 1), Some (Num 0), Some (Num 0), Some (Num 1)], Some 16) \<and>
   parse_colors ''3 1 0 0 1\<newline>0 1 0'' =
     replicate 12 None @ [Some (Num 1), Some (Num 0), Some (Num 0), Some (Num 1),
                          Some (Num 0), Some (Num 1), Some (Num 0), Some (Num 1)] \<and>
   (\<forall>line st. length (split_ws False [] (trim line)) < 3 \<longrightarrow> parse_line line st = st)"
proof (intro conjI allI impI)
  show "parse_colors ''3 1 0 0 1'' =
     replicate 12 None @ [Some (Num 1), Some (Num 0), Some (Num 0), Some (Num 1)]"
    by code_simp
  show "parse_line ''3 1 0 0 1'' ([], Some 0) =
     (replicate 12 None @ [Some (Num 1), Some (Num 0), Some (Num 0), Some (Num 1)], Some 16)"
    by code_simp
  show "parse_colors ''3 1 0 0 1\<newline>0 1 0'' =
     replicate 12 None @ [Some (Num 1), Some (Num 0), Some (Num 0), Some (Num 1),
                          Some (Num 0), Some (Num 1), Some (Num 0), Some (Num 1)]"
    by code_simp
next
  fix line and st :: "cell list \<times> int option"
  assume "length (split_ws False [] (trim line)) < 3"
  then show "parse_line line st = st"
    by (simp add: parse_line_def Let_def take5_short split: prod.splits)
qed

theorem sparse_table_witness:
  "parse_line ''0 1'' ([Some (Num 7)], Some 4) = ([Some (Num 7)], Some 4)"
proof -
  have "length (split_ws False [] (trim ''0 1'')) < 3" by code_simp
  with sparse_table show ?thesis by blast
qed

section \<open>Properties of the colour mapping\<close>

text \<open>
  Claim C7. The text of five dense lines parses to the flat array of twenty cells with
  the alpha of each entry set to 1; for the window \<open>[0, 4]\<close> the increment is
  \<open>5 / 4\<close>, the intensity \<open>2.5\<close> resolves to entry 3 (offset 12), and \<open>mapColors\<close>
  with scale 1 and without clamp and flip writes the colour \<open>0, 0, 1, 1\<close> into a new
  destination.
\<close>

theorem concrete_scenario:
  "parse_colors ''0 0 0\<newline>1 0 0\<newline>0 1 0\<newline>0 0 1\<newline>1 1 1'' =
     [Some (Num 0), Some (Num 0), Some (Num 0), Some (Num 1),
      Some (Num 1), Some (Num 0), Some (Num 0), Some (Num 1),
      Some (Num 0), Some (Num 1), Some (Num 0), Some (Num 1),
      Some (Num 0), Some (Num 0), Some (Num 1), Some (Num 1),
      Some (Num 1), Some (Num 1), Some (Num 1), Some (Num 1)] \<and>
   length (parse_colors ''0 0 0\<newline>1 0 0\<newline>0 1 0\<newline>0 0 1\<newline>1 1 1'') = 20 \<and>
   mapColors_increment 0 4 (20 / 4) = Num (5 / 4) \<and>
   getColorMapIndex (Num (5 / 2)) 0 4 (Num (5 / 4)) False False (20 / 4) = Num (3 * 4) \<and>
   fst (mapColors rgb_world 1
          (Some ((window 0 4)\<lparr>opt_scale := Some 1, opt_clamp := Some False, opt_flip := Some False\<rparr>))
          None) = Some 2 \<and>
   elems (arrays (snd (mapColors rgb_world 1
          (Some ((window 0 4)\<lparr>opt_scale := Some 1, opt_clamp := Some False, opt_flip := Some False\<rparr>))
          None)) 2) = [Some (Num 0), Some (Num 0), Some (Num 1), Some (Num 1)]"
  by code_simp

text \<open>
  Claim C4, as amended. \<open>mapColors\<close> returns undefined exactly when the active colours
  are falsy: the colour map has no colours and there is no filter (or the filter returns
  its argument), or the filter returns a falsy value. An empty array is not falsy: the
  call maps through it and returns the destination, as the counterexample shows.
\<close>

theorem mapColors_undefined_iff_no_colors:
  assumes "\<forall>a. cm_colors (this_map w) = Some a \<longrightarrow> a < next_free w"
  shows "fst (mapColors w intensity_values options filterColorCb) = None \<longleftrightarrow>
         active_colors w filterColorCb = None"
  by (cases "active_colors w filterColorCb")
     (simp_all add: mapColors_def Let_def case_prod_unfold active_colors_destination[OF assms])

theorem mapColors_undefined_witness:
  "fst (mapColors no_colors_world 0 None None) = None \<and>
   fst (mapColors rgb_world 1 None None) \<noteq> None"
proof -
  have n: "cm_colors (this_map no_colors_world) = None" by code_simp
  have a: "active_colors no_colors_world None = None" by code_simp
  have c: "cm_colors (this_map rgb_world) = Some 0" "next_free rgb_world = 2" by code_simp+
  have b: "active_colors rgb_world None \<noteq> None" by code_simp
  have "fst (mapColors no_colors_world 0 None None) = None"
    using mapColors_undefined_iff_no_colors[of no_colors_world 0 None None] n a by simp
  moreover have "fst (mapColors rgb_world 1 None None) \<noteq> None"
    using mapColors_undefined_iff_no_colors[of rgb_world 1 None None] c b by simp
  ultimately show ?thesis by simp
qed

theorem mapColors_empty_table_counterexample:
  "cm_colors (this_map empty_colors_world) = Some 0 \<and>
   elems (arrays empty_colors_world 0) = [] \<and>
   fst (mapColors empty_colors_world 1 None None) = Some 2"
  by code_simp



lemma array_map_length [simp]: "length (elems (array_map f a)) = length (elems a)"
  by (simp add: array_map_def split: array_kind.splits)

lemma array_map_kind [simp]: "kind (array_map f a) = kind a"
  by (simp add: array_map_def split: array_kind.splits)






lemma store_write_this_map [simp]: "this_map (store_write d i x w) = this_map w"
  by (simp add: store_write_def)


lemma write_fixed_this_map [simp]: "this_map (write_fixed e ic c off w) = this_map w"
  by (simp add: write_fixed_def Let_def)


lemma write_table_this_map [simp]: "this_map (write_table e ic idx w) = this_map w"
  by (simp add: write_table_def Let_def)


lemma mapColors_pixel_this_map [simp]: "this_map (mapColors_pixel e i w) = this_map w"
  by (simp add: mapColors_pixel_def Let_def split: option.splits)


lemma mapColors_loop_this_map [simp]: "this_map (fold (mapColors_pixel e) xs w) = this_map w"
  by (induction xs arbitrary: w) simp_all

lemma e_destination_env [simp]:
  "e_destination (mapColors_env w options vals tbl d) = d"
  by (simp add: mapColors_env_def Let_def)





section \<open>The colour of one value against the colour mapping\<close>

text \<open>
  Claim C9, evaluated where the code departs from it. For a table of four labelled
  entries and the window \<open>[0, 17]\<close>, \<open>mapColors\<close> resolves the value 2 with the
  increment 1 to entry 2 and writes its colour, while \<open>colorFromValue\<close> resolves the same
  value with the increment \<open>4 / 17\<close> to entry 0 and returns that colour.
\<close>

theorem colorFromValue_without_label_increment:
  "getColorMapIndex (Num 2) 0 17 (mapColors_increment 0 17 4) True False 4 = Num (2 * 4) \<and>
   getColorMapIndex (Num 2) 0 17 (js_div 4 (17 - 0)) True False 4 = Num (0 * 4) \<and>
   elems (arrays (snd (mapColors label_world 1 (Some (window 0 17)) None)) 2) =
     [Some (Num 0), Some (Num 1), Some (Num 0), Some (Num 1)] \<and>
   colorFromValue label_world (Num 2)
     (Some \<lparr>vo_hex = False, vo_min = Some 0, vo_max = Some 17, vo_scale = None,
            vo_brightness = None, vo_contrast = None\<rparr>) =
     Inr (Color [Some (Num 0), Some (Num 0), Some (Num 0), Some (Num 1)])"
  by code_simp

section \<open>Properties of the slice image\<close>







end
